theory Spec2Isabelle
  imports Main "HOL-Library.Word"
begin

section \<open>The Hori/Namco Flightstick driver (hori.c)\<close>

text \<open>
  The driver keeps three USB transfers alive: an interrupt read (\<open>hori->urb\<close>, completion
  handler \<open>hori_usb_irq\<close>) and a control read (\<open>hori->urb_ctl\<close>) that alternates between
  the vendor requests \<open>HORI_POLL_VR0\<close> and \<open>HORI_POLL_VR1\<close> (completion handlers
  \<open>hori_poll_vr0_complete\<close> and \<open>hori_poll_vr1_complete\<close>).

  Every C function is a HOL function from the session state and the values the kernel
  hands to it (the completed urb, the value returned by each \<open>usb_submit_urb\<close> call) to
  the new session state and the list of calls it makes into the kernel, in program order.
\<close>

subsection \<open>Kernel constants\<close>

text \<open>Error numbers of \<open>linux/errno.h\<close> (asm-generic values).\<close>

definition EPERM :: int where "EPERM = 1"
definition ENOENT :: int where "ENOENT = 2"
definition EIO :: int where "EIO = 5"
definition ENOMEM :: int where "ENOMEM = 12"
definition EPIPE :: int where "EPIPE = 32"
definition ETIME :: int where "ETIME = 62"
definition ECONNRESET :: int where "ECONNRESET = 104"
definition ESHUTDOWN :: int where "ESHUTDOWN = 108"

type_synonym u8 = "8 word"
type_synonym u16 = "16 word"

text \<open>\<open>#define HORI_POLL_VR0 0x00\<close>, \<open>#define HORI_POLL_VR1 0x01\<close>.\<close>

definition HORI_POLL_VR0 :: u8 where "HORI_POLL_VR0 = 0"
definition HORI_POLL_VR1 :: u8 where "HORI_POLL_VR1 = 1"

subsection \<open>Data\<close>

text \<open>
  \<open>struct hori_raw_input_vr_00\<close> and \<open>struct hori_raw_input_vr_01\<close>: bit-fields of
  \<open>u8\<close>. A one-bit field is a \<open>bool\<close> (\<open>True\<close> is the bit value 1), the two-bit field a
  \<open>2 word\<close>. The reserved fields of the second structure carry a prefix, since a record
  field name is global.
\<close>

record hori_raw_input_vr_00 =
  fire_c :: bool
  button_d :: bool
  hat :: bool
  button_st :: bool
  dpad1_top :: bool
  dpad1_right :: bool
  dpad1_bottom :: bool
  dpad1_left :: bool
  reserved1 :: bool
  reserved2 :: bool
  reserved3 :: bool
  reserved4 :: bool
  reserved5 :: bool
  launch :: bool
  trigger :: bool
  reserved6 :: bool

record hori_raw_input_vr_01 =
  vr1_reserved1 :: bool
  vr1_reserved2 :: bool
  vr1_reserved3 :: bool
  vr1_reserved4 :: bool
  dpad3_right :: bool
  dpad3_middle :: bool
  dpad3_left :: bool
  vr1_reserved5 :: bool
  mode_select :: "2 word"
  vr1_reserved6 :: bool
  button_sw1 :: bool
  dpad2_top :: bool
  dpad2_right :: bool
  dpad2_bottom :: bool
  dpad2_left :: bool

text \<open>
  \<open>sizeof(hori->vr0)\<close> and \<open>sizeof(hori->vr1)\<close>: sixteen bits of \<open>u8\<close> bit-fields each,
  two bytes.
\<close>

definition sizeof_vr0 :: nat where "sizeof_vr0 = 2"
definition sizeof_vr1 :: nat where "sizeof_vr1 = 2"

text \<open>\<open>struct usb_ctrlrequest\<close>, the setup packet of the control transfer.\<close>

record usb_ctrlrequest =
  bRequestType :: u8
  bRequest :: u8
  wValue :: u16
  wIndex :: u16
  wLength :: u16

text \<open>
  What \<open>usb_fill_control_urb\<close> stores in \<open>hori->urb_ctl\<close>: the buffer that receives the
  answer (\<open>&hori->vr0\<close> or \<open>&hori->vr1\<close>), its length, and the completion handler.
\<close>

datatype ctl_buffer = Vr0_buf | Vr1_buf

datatype ctl_complete = Hori_poll_vr0_complete | Hori_poll_vr1_complete

record ctl_fill =
  transfer_buffer :: ctl_buffer
  transfer_buffer_length :: nat
  complete :: ctl_complete

text \<open>
  \<open>struct hori\<close>: the fields that the modelled functions read or write. \<open>urb_ctl\<close> is
  \<open>None\<close> until the first \<open>usb_fill_control_urb\<close>. The mutex \<open>pm_mutex\<close> appears as
  lock and unlock calls in the trace.
\<close>

record hori =
  is_open :: bool
  ctl_req :: usb_ctrlrequest
  urb_ctl :: "ctl_fill option"
  vr0 :: hori_raw_input_vr_00
  vr1 :: hori_raw_input_vr_01

text \<open>
  The fields of a completed \<open>struct urb\<close> that a handler can read. For the interrupt
  urb, \<open>irq_data\<close> is the transfer buffer (\<open>u8 *data = urb->transfer_buffer\<close>); the
  control urb's buffer is \<open>hori->vr0\<close> or \<open>hori->vr1\<close> itself.
\<close>

record urb =
  status :: int
  actual_length :: nat

record int_urb = urb +
  irq_data :: "u8 list"

subsection \<open>Calls into the kernel\<close>

datatype log_level = KERN_DEBUG | KERN_WARNING | KERN_ERR

datatype gfp = GFP_KERNEL | GFP_ATOMIC

datatype key_code =
    BTN_TRIGGER_HAPPY1 | BTN_TRIGGER_HAPPY2 | BTN_TRIGGER_HAPPY3 | BTN_TRIGGER_HAPPY4
  | BTN_TRIGGER_HAPPY5 | BTN_TRIGGER_HAPPY6 | BTN_TRIGGER_HAPPY7 | BTN_TRIGGER_HAPPY8
  | BTN_THUMB | BTN_TRIGGER | BTN_THUMB2 | BTN_A | BTN_B | BTN_C | BTN_X | BTN_Y

datatype abs_code =
  ABS_X | ABS_Y | ABS_RUDDER | ABS_RX | ABS_RY | ABS_THROTTLE | ABS_Z | ABS_RZ

text \<open>
  One constructor for each kernel call the driver makes. \<open>Log\<close> is \<open>dev_dbg\<close>,
  \<open>dev_warn\<close> or \<open>dev_err\<close> with the calling function's name (\<open>__func__\<close>); the rest of
  the message is left out. \<open>Usb_submit_urb_ctl\<close> records the setup packet and the fill
  of \<open>hori->urb_ctl\<close> at the moment of the call.
\<close>

datatype effect =
    Log log_level string
  | Input_report_key key_code bool
  | Input_report_abs abs_code int
  | Input_sync
  | Usb_submit_urb gfp
  | Usb_submit_urb_ctl usb_ctrlrequest ctl_fill gfp
  | Usb_kill_urb
  | Usb_kill_urb_ctl
  | Mutex_lock
  | Mutex_unlock

subsection \<open>The functions of hori.c\<close>

text \<open>\<open>hori_urb_error\<close>: one \<open>dev_err\<close>; the table of error names only feeds the message.\<close>

definition hori_urb_error :: "int \<Rightarrow> effect list" where
  "hori_urb_error error = [Log KERN_ERR ''hori_urb_error'']"

text \<open>
  \<open>hori_poll_vr0\<close> and \<open>hori_poll_vr1\<close>. The argument \<open>error\<close> is the value that
  \<open>usb_submit_urb(hori->urb_ctl, GFP_KERNEL)\<close> returns.
\<close>

definition hori_poll_vr0 :: "hori \<Rightarrow> int \<Rightarrow> hori \<times> effect list" where
  "hori_poll_vr0 h error =
     (let req = (ctl_req h)\<lparr>bRequest := HORI_POLL_VR0, wLength := of_nat sizeof_vr0\<rparr>;
          fill = \<lparr>transfer_buffer = Vr0_buf, transfer_buffer_length = sizeof_vr0,
                  complete = Hori_poll_vr0_complete\<rparr>
      in (h\<lparr>ctl_req := req, urb_ctl := Some fill\<rparr>,
          Usb_submit_urb_ctl req fill GFP_KERNEL #
          (if error \<noteq> 0 \<and> error \<noteq> - EPERM then hori_urb_error error else [])))"

definition hori_poll_vr1 :: "hori \<Rightarrow> int \<Rightarrow> hori \<times> effect list" where
  "hori_poll_vr1 h error =
     (let req = (ctl_req h)\<lparr>bRequest := HORI_POLL_VR1, wLength := of_nat sizeof_vr1\<rparr>;
          fill = \<lparr>transfer_buffer = Vr1_buf, transfer_buffer_length = sizeof_vr1,
                  complete = Hori_poll_vr1_complete\<rparr>
      in (h\<lparr>ctl_req := req, urb_ctl := Some fill\<rparr>,
          Usb_submit_urb_ctl req fill GFP_KERNEL #
          (if error \<noteq> 0 \<and> error \<noteq> - EPERM then hori_urb_error error else [])))"

text \<open>The events of one decoded report, up to and including \<open>input_sync\<close>.\<close>

definition report_vr0 :: "hori_raw_input_vr_00 \<Rightarrow> effect list" where
  "report_vr0 v =
     [Input_report_key BTN_TRIGGER_HAPPY1 (\<not> fire_c v),
      Input_report_key BTN_TRIGGER_HAPPY2 (\<not> button_d v),
      Input_report_key BTN_TRIGGER_HAPPY3 (\<not> hat v),
      Input_report_key BTN_TRIGGER_HAPPY4 (\<not> button_st v),
      Input_report_key BTN_TRIGGER_HAPPY5 (\<not> dpad1_top v),
      Input_report_key BTN_TRIGGER_HAPPY6 (\<not> dpad1_right v),
      Input_report_key BTN_TRIGGER_HAPPY7 (\<not> dpad1_bottom v),
      Input_report_key BTN_TRIGGER_HAPPY8 (\<not> dpad1_left v),
      Input_report_key BTN_THUMB (\<not> launch v),
      Input_report_key BTN_TRIGGER (\<not> trigger v),
      Input_sync]"

definition report_vr1 :: "hori_raw_input_vr_01 \<Rightarrow> effect list" where
  "report_vr1 v =
     [Input_report_key BTN_THUMB2 (\<not> dpad3_right v),
      Input_report_key BTN_C (\<not> dpad3_middle v),
      Input_report_key BTN_X (\<not> dpad3_left v),
      Input_report_key BTN_Y (\<not> button_sw1 v),
      Input_report_abs ABS_Z (if \<not> dpad2_left v then 0 else if \<not> dpad2_right v then 2 else 1),
      Input_report_abs ABS_RZ (if \<not> dpad2_top v then 0 else if \<not> dpad2_bottom v then 2 else 1),
      Input_sync]"

text \<open>
  \<open>hori_poll_vr0_complete\<close>: the switch on \<open>urb->status\<close>, then the reports read from
  \<open>hori->vr0\<close>, then (label \<open>exit2\<close>) \<open>hori_poll_vr1\<close>. \<open>error\<close> is what the
  submission made by \<open>hori_poll_vr1\<close> returns.
\<close>

definition hori_poll_vr0_complete :: "hori \<Rightarrow> 'a urb_scheme \<Rightarrow> int \<Rightarrow> hori \<times> effect list" where
  "hori_poll_vr0_complete h u error =
     (if status u = 0 then
        (let (h', fx) = hori_poll_vr1 h error in (h', report_vr0 (vr0 h) @ fx))
      else if status u = - ETIME then
        (h, [Log KERN_WARNING ''hori_poll_vr0_complete''])
      else if status u = - EPIPE then
        hori_poll_vr1 h error
      else if status u = - ECONNRESET \<or> status u = - ENOENT \<or> status u = - ESHUTDOWN then
        (h, [Log KERN_WARNING ''hori_poll_vr0_complete''])
      else
        (let (h', fx) = hori_poll_vr1 h error
         in (h', Log KERN_ERR ''hori_poll_vr0_complete'' # fx)))"

text \<open>\<open>hori_poll_vr1_complete\<close>: the same with \<open>hori->vr1\<close>, label \<open>exit3\<close> and \<open>hori_poll_vr0\<close>.\<close>

definition hori_poll_vr1_complete :: "hori \<Rightarrow> 'a urb_scheme \<Rightarrow> int \<Rightarrow> hori \<times> effect list" where
  "hori_poll_vr1_complete h u error =
     (if status u = 0 then
        (let (h', fx) = hori_poll_vr0 h error in (h', report_vr1 (vr1 h) @ fx))
      else if status u = - ETIME then
        (h, [Log KERN_WARNING ''hori_poll_vr1_complete''])
      else if status u = - EPIPE then
        hori_poll_vr0 h error
      else if status u = - ECONNRESET \<or> status u = - ENOENT \<or> status u = - ESHUTDOWN then
        (h, [Log KERN_WARNING ''hori_poll_vr1_complete''])
      else
        (let (h', fx) = hori_poll_vr0 h error
         in (h', Log KERN_ERR ''hori_poll_vr1_complete'' # fx)))"

text \<open>
  \<open>hori_usb_irq\<close>. It changes no field of \<open>struct hori\<close>. \<open>data[i]\<close> is \<open>irq_data u ! i\<close>,
  which is the byte read only while \<open>i < length (irq_data u)\<close>; the USB core never reports
  an \<open>actual_length\<close> beyond the buffer it was given, and the theorems about decoded
  values assume so. The \<open>u8\<close> is promoted to \<open>int\<close> for \<open>input_report_abs\<close>. \<open>error\<close> is
  what \<open>usb_submit_urb(urb, GFP_ATOMIC)\<close> returns.
\<close>

definition hori_usb_irq :: "int_urb \<Rightarrow> int \<Rightarrow> effect list" where
  "hori_usb_irq u error =
     (let exit = Usb_submit_urb GFP_ATOMIC #
                 (if error \<noteq> 0 \<and> error \<noteq> - EPERM then hori_urb_error error else []);
          data = irq_data u
      in if status u = 0 then
           (if actual_length u = 8 then
              [Input_report_abs ABS_X (uint (data ! 0)),
               Input_report_abs ABS_Y (uint (data ! 1)),
               Input_report_abs ABS_RUDDER (uint (data ! 2)),
               Input_report_abs ABS_RX (uint (data ! 3)),
               Input_report_abs ABS_RY (uint (data ! 4)),
               Input_report_abs ABS_THROTTLE (uint (data ! 5)),
               Input_report_key BTN_A (data ! 6 < 0xc0),
               Input_report_key BTN_B (data ! 7 < 0xc0),
               Input_sync]
            else [Log KERN_WARNING ''hori_usb_irq'']) @ exit
         else if status u = - ETIME then
           [Log KERN_DEBUG ''hori_usb_irq'']
         else if status u = - ECONNRESET \<or> status u = - ENOENT \<or> status u = - ESHUTDOWN
                 \<or> status u = - EPIPE then
           [Log KERN_DEBUG ''hori_usb_irq'']
         else
           Log KERN_DEBUG ''hori_usb_irq'' # exit)"

text \<open>
  \<open>hori_open\<close>. \<open>error\<close> is the result of submitting the interrupt urb, \<open>error_ctl\<close> the
  result of the submission inside \<open>hori_poll_vr0\<close>. The function result comes first.
\<close>

definition hori_open :: "hori \<Rightarrow> int \<Rightarrow> int \<Rightarrow> int \<times> hori \<times> effect list" where
  "hori_open h error error_ctl =
     (if error \<noteq> 0 then
        (- EIO, h, [Mutex_lock, Usb_submit_urb GFP_KERNEL, Log KERN_ERR ''hori_open'', Mutex_unlock])
      else
        (let (h', fx) = hori_poll_vr0 (h\<lparr>is_open := True\<rparr>) error_ctl
         in (0, h', [Mutex_lock, Usb_submit_urb GFP_KERNEL] @ fx @ [Mutex_unlock])))"

definition hori_close :: "hori \<Rightarrow> hori \<times> effect list" where
  "hori_close h =
     (h\<lparr>is_open := False\<rparr>,
      [Log KERN_WARNING ''hori_close'', Mutex_lock, Usb_kill_urb, Usb_kill_urb_ctl, Mutex_unlock])"

definition hori_suspend :: "hori \<Rightarrow> int \<times> hori \<times> effect list" where
  "hori_suspend h =
     (0, h,
      [Log KERN_WARNING ''hori_suspend'', Mutex_lock] @
      (if is_open h then [Usb_kill_urb, Usb_kill_urb_ctl] else []) @
      [Mutex_unlock])"

text \<open>
  \<open>hori_resume\<close>: \<open>usb_submit_urb\<close> is called only when \<open>is_open\<close> holds (\<open>&&\<close>), and a
  negative result returns \<open>-EIO\<close> before \<open>hori_poll_vr0\<close> is reached.
\<close>

definition hori_resume :: "hori \<Rightarrow> int \<Rightarrow> int \<Rightarrow> int \<times> hori \<times> effect list" where
  "hori_resume h error error_ctl =
     (if is_open h \<and> error < 0 then
        (- EIO, h, [Mutex_lock, Usb_submit_urb GFP_KERNEL, Mutex_unlock])
      else if is_open h then
        (let (h', fx) = hori_poll_vr0 h error_ctl
         in (0, h', [Mutex_lock, Usb_submit_urb GFP_KERNEL] @ fx @ [Mutex_unlock]))
      else (0, h, [Mutex_lock, Mutex_unlock]))"

definition hori_pre_reset :: "hori \<Rightarrow> int \<times> hori \<times> effect list" where
  "hori_pre_reset h =
     (0, h, [Log KERN_WARNING ''hori_pre_reset'', Mutex_lock, Usb_kill_urb, Usb_kill_urb_ctl])"

definition hori_post_reset :: "hori \<Rightarrow> int \<Rightarrow> int \<Rightarrow> int \<times> hori \<times> effect list" where
  "hori_post_reset h error error_ctl =
     (if is_open h then
        (let (h', fx) = hori_poll_vr0 h error_ctl
         in (if error < 0 then - EIO else 0, h',
             Usb_submit_urb GFP_KERNEL # fx @ [Mutex_unlock]))
      else (0, h, [Mutex_unlock]))"

definition hori_reset_resume :: "hori \<Rightarrow> int \<Rightarrow> int \<Rightarrow> int \<times> hori \<times> effect list" where
  "hori_reset_resume h error error_ctl = hori_resume h error error_ctl"

subsection \<open>The USB core, as the control poll chain sees it\<close>

text \<open>
  A completion of the control urb: the urb's status and length, the contents the
  transfer left in the session's two report buffers, and the value that the submission
  made by the handler (if it makes one) returns.
\<close>

record ctl_event =
  ev_urb :: urb
  ev_vr0 :: hori_raw_input_vr_00
  ev_vr1 :: hori_raw_input_vr_01
  ev_submit :: int

text \<open>The transfer writes the buffer that \<open>usb_fill_control_urb\<close> registered.\<close>

definition deliver :: "hori \<Rightarrow> ctl_fill \<Rightarrow> ctl_event \<Rightarrow> hori" where
  "deliver h f e =
     (case transfer_buffer f of
        Vr0_buf \<Rightarrow> h\<lparr>vr0 := ev_vr0 e\<rparr>
      | Vr1_buf \<Rightarrow> h\<lparr>vr1 := ev_vr1 e\<rparr>)"

text \<open>The core calls the completion handler stored in the urb.\<close>

definition ctl_complete_call :: "hori \<Rightarrow> ctl_event \<Rightarrow> hori \<times> effect list" where
  "ctl_complete_call h e =
     (case urb_ctl h of
        None \<Rightarrow> (h, [])
      | Some f \<Rightarrow>
          (case complete f of
             Hori_poll_vr0_complete \<Rightarrow>
               hori_poll_vr0_complete (deliver h f e) (ev_urb e) (ev_submit e)
           | Hori_poll_vr1_complete \<Rightarrow>
               hori_poll_vr1_complete (deliver h f e) (ev_urb e) (ev_submit e)))"

fun ctl_submissions :: "effect list \<Rightarrow> (usb_ctrlrequest \<times> ctl_fill) list" where
  "ctl_submissions [] = []"
| "ctl_submissions (Usb_submit_urb_ctl r f g # fx) = (r, f) # ctl_submissions fx"
| "ctl_submissions (x # fx) = ctl_submissions fx"

text \<open>
  The chain: a completion arrives only for a submission the core accepted (result 0);
  once a handler submits nothing, or its submission is refused, no further completion
  reaches the driver from this leg. The result is the trace of all handler calls.
\<close>

fun ctl_chain :: "hori \<Rightarrow> ctl_event list \<Rightarrow> effect list" where
  "ctl_chain h [] = []"
| "ctl_chain h (e # es) =
     (case ctl_complete_call h e of
        (h', fx) \<Rightarrow>
          fx @ (if ctl_submissions fx \<noteq> [] \<and> ev_submit e = 0 then ctl_chain h' es else []))"

text \<open>The chain as \<open>hori_open\<close>, \<open>hori_resume\<close> and \<open>hori_post_reset\<close> start it: \<open>hori_poll_vr0\<close>.\<close>

definition start_chain :: "hori \<Rightarrow> int \<Rightarrow> ctl_event list \<Rightarrow> effect list" where
  "start_chain h error es =
     (case hori_poll_vr0 h error of
        (h', fx) \<Rightarrow> fx @ (if error = 0 then ctl_chain h' es else []))"

subsection \<open>The vocabulary of the specification\<close>

text \<open>
  The five status classes: the names that the specification gives to the branches of
  the switch on \<open>urb->status\<close> in the two poll completion handlers.
\<close>

datatype status_class = SUCCESS | TRANSIENT_TIMEOUT | TERMINATED | PROTOCOL_STALL | UNEXPECTED

definition classify :: "int \<Rightarrow> status_class" where
  "classify s =
     (if s = 0 then SUCCESS
      else if s = - ETIME then TRANSIENT_TIMEOUT
      else if s = - EPIPE then PROTOCOL_STALL
      else if s = - ECONNRESET \<or> s = - ENOENT \<or> s = - ESHUTDOWN then TERMINATED
      else UNEXPECTED)"

text \<open>
  The phase of a control submission: \<open>PHASE_A\<close> is request \<open>HORI_POLL_VR0\<close> into
  \<open>hori->vr0\<close> with handler \<open>hori_poll_vr0_complete\<close>, \<open>PHASE_B\<close> is request
  \<open>HORI_POLL_VR1\<close> into \<open>hori->vr1\<close> with handler \<open>hori_poll_vr1_complete\<close>; any other
  combination is no phase.
\<close>

datatype phase = PHASE_A | PHASE_B

definition phase_of :: "usb_ctrlrequest \<times> ctl_fill \<Rightarrow> phase option" where
  "phase_of rf =
     (case rf of (r, f) \<Rightarrow>
        if bRequest r = HORI_POLL_VR0 \<and> wLength r = 2 \<and> transfer_buffer f = Vr0_buf
           \<and> transfer_buffer_length f = 2 \<and> complete f = Hori_poll_vr0_complete
        then Some PHASE_A
        else if bRequest r = HORI_POLL_VR1 \<and> wLength r = 2 \<and> transfer_buffer f = Vr1_buf
           \<and> transfer_buffer_length f = 2 \<and> complete f = Hori_poll_vr1_complete
        then Some PHASE_B
        else None)"

definition ctl_phases :: "effect list \<Rightarrow> phase option list" where
  "ctl_phases fx = map phase_of (ctl_submissions fx)"

fun other_phase :: "phase \<Rightarrow> phase" where
  "other_phase PHASE_A = PHASE_B"
| "other_phase PHASE_B = PHASE_A"

text \<open>\<open>alternating p n\<close>: the first \<open>n\<close> phases of the sequence that starts at \<open>p\<close>.\<close>

fun alternating :: "phase \<Rightarrow> nat \<Rightarrow> phase list" where
  "alternating p 0 = []"
| "alternating p (Suc n) = p # alternating (other_phase p) n"

text \<open>What \<open>hori_poll_vr0\<close> (\<open>PHASE_A\<close>) and \<open>hori_poll_vr1\<close> (\<open>PHASE_B\<close>) leave in \<open>hori->urb_ctl\<close>.\<close>

fun phase_fill :: "phase \<Rightarrow> ctl_fill" where
  "phase_fill PHASE_A = \<lparr>transfer_buffer = Vr0_buf, transfer_buffer_length = sizeof_vr0,
                          complete = Hori_poll_vr0_complete\<rparr>"
| "phase_fill PHASE_B = \<lparr>transfer_buffer = Vr1_buf, transfer_buffer_length = sizeof_vr1,
                          complete = Hori_poll_vr1_complete\<rparr>"

text \<open>The parts of a trace: submissions of the interrupt urb, published input events, log levels.\<close>

fun int_submissions :: "effect list \<Rightarrow> gfp list" where
  "int_submissions [] = []"
| "int_submissions (Usb_submit_urb g # fx) = g # int_submissions fx"
| "int_submissions (x # fx) = int_submissions fx"

fun is_input_event :: "effect \<Rightarrow> bool" where
  "is_input_event (Input_report_key k b) = True"
| "is_input_event (Input_report_abs a v) = True"
| "is_input_event Input_sync = True"
| "is_input_event x = False"

definition input_events :: "effect list \<Rightarrow> effect list" where
  "input_events fx = filter is_input_event fx"

fun log_levels :: "effect list \<Rightarrow> log_level list" where
  "log_levels [] = []"
| "log_levels (Log l s # fx) = l # log_levels fx"
| "log_levels (x # fx) = log_levels fx"

fun abs_events :: "effect list \<Rightarrow> (abs_code \<times> int) list" where
  "abs_events [] = []"
| "abs_events (Input_report_abs a v # fx) = (a, v) # abs_events fx"
| "abs_events (x # fx) = abs_events fx"

fun kills :: "effect list \<Rightarrow> effect list" where
  "kills [] = []"
| "kills (Usb_kill_urb # fx) = Usb_kill_urb # kills fx"
| "kills (Usb_kill_urb_ctl # fx) = Usb_kill_urb_ctl # kills fx"
| "kills (x # fx) = kills fx"

text \<open>
  The pad rule in the specification's words: low edge active gives 0, high edge active
  gives 2, otherwise 1. A direction bit is active when it is 0.
\<close>

definition pad_axis_spec :: "bool \<Rightarrow> bool \<Rightarrow> int" where
  "pad_axis_spec low_active high_active = (if low_active then 0 else if high_active then 2 else 1)"

definition active :: "bool \<Rightarrow> bool" where
  "active bit_value = (\<not> bit_value)"

subsection \<open>A concrete session\<close>

text \<open>
  The session as \<open>hori_probe\<close> leaves it: \<open>devm_kzalloc\<close> zeroes the structure, then the
  setup packet is filled in (\<open>USB_DIR_IN | USB_TYPE_VENDOR | USB_RECIP_ENDPOINT\<close> is
  \<open>0x80 | 0x40 | 0x02\<close>).
\<close>

definition vr0_zero :: hori_raw_input_vr_00 where
  "vr0_zero = \<lparr>fire_c = False, button_d = False, hat = False, button_st = False,
     dpad1_top = False, dpad1_right = False, dpad1_bottom = False, dpad1_left = False,
     reserved1 = False, reserved2 = False, reserved3 = False, reserved4 = False,
     reserved5 = False, launch = False, trigger = False, reserved6 = False\<rparr>"

definition vr1_zero :: hori_raw_input_vr_01 where
  "vr1_zero = \<lparr>vr1_reserved1 = False, vr1_reserved2 = False, vr1_reserved3 = False,
     vr1_reserved4 = False, dpad3_right = False, dpad3_middle = False, dpad3_left = False,
     vr1_reserved5 = False, mode_select = 0, vr1_reserved6 = False, button_sw1 = False,
     dpad2_top = False, dpad2_right = False, dpad2_bottom = False, dpad2_left = False\<rparr>"

definition probed :: hori where
  "probed = \<lparr>is_open = False,
     ctl_req = \<lparr>bRequestType = 0xc2, bRequest = HORI_POLL_VR0, wValue = 0, wIndex = 1,
                wLength = of_nat sizeof_vr0\<rparr>,
     urb_ctl = None, vr0 = vr0_zero, vr1 = vr1_zero\<rparr>"

text \<open>The probed session after a successful \<open>hori_open\<close>.\<close>

definition opened :: hori where
  "opened = fst (snd (hori_open probed 0 0))"

text \<open>
  A control completion with status \<open>s\<close>, a full-length answer of zero bits, and an
  accepted resubmission.
\<close>

definition completion_with :: "int \<Rightarrow> ctl_event" where
  "completion_with s =
     \<lparr>ev_urb = \<lparr>status = s, actual_length = 2\<rparr>, ev_vr0 = vr0_zero, ev_vr1 = vr1_zero,
      ev_submit = 0\<rparr>"

section \<open>Properties\<close>

lemmas errno_defs =
  EPERM_def ENOENT_def EIO_def ENOMEM_def EPIPE_def ETIME_def ECONNRESET_def ESHUTDOWN_def

subsection \<open>The interrupt report\<close>

text \<open>
  C3. A successful interrupt completion with \<open>actual_length = 8\<close>, whose buffer starts
  with the bytes \<open>b0 \<dots> b7\<close>, publishes the six axes \<open>ABS_X, ABS_Y, ABS_RUDDER, ABS_RX,
  ABS_RY, ABS_THROTTLE\<close> with the values of bytes 0 to 5 unscaled, \<open>BTN_A\<close> pressed iff
  byte 6 is below \<open>0xC0\<close>, \<open>BTN_B\<close> pressed iff byte 7 is below \<open>0xC0\<close>, and then one
  \<open>input_sync\<close>; nothing else is published.
\<close>

theorem irq_report_decoded:
  assumes "status u = 0" and "actual_length u = 8"
    and "irq_data u = b0 # b1 # b2 # b3 # b4 # b5 # b6 # b7 # rest"
  shows "input_events (hori_usb_irq u error) =
     [Input_report_abs ABS_X (uint b0), Input_report_abs ABS_Y (uint b1),
      Input_report_abs ABS_RUDDER (uint b2), Input_report_abs ABS_RX (uint b3),
      Input_report_abs ABS_RY (uint b4), Input_report_abs ABS_THROTTLE (uint b5),
      Input_report_key BTN_A (b6 < 0xc0), Input_report_key BTN_B (b7 < 0xc0),
      Input_sync]"
  using assms by (simp add: hori_usb_irq_def input_events_def hori_urb_error_def)

text \<open>The buffer \<open>[10,20,30,40,50,60,0xFF,0x00]\<close> of the specification's scenario.\<close>

theorem irq_report_decoded_witness:
  "input_events (hori_usb_irq \<lparr>status = 0, actual_length = 8,
       irq_data = [10, 20, 30, 40, 50, 60, 0xff, 0x00]\<rparr> 0) =
     [Input_report_abs ABS_X 10, Input_report_abs ABS_Y 20,
      Input_report_abs ABS_RUDDER 30, Input_report_abs ABS_RX 40,
      Input_report_abs ABS_RY 50, Input_report_abs ABS_THROTTLE 60,
      Input_report_key BTN_A False, Input_report_key BTN_B True,
      Input_sync]"
  using irq_report_decoded [of "\<lparr>status = 0, actual_length = 8,
       irq_data = [10, 20, 30, 40, 50, 60, 0xff, 0x00]\<rparr>" 10 20 30 40 50 60 "0xff" "0x00" "[]" 0]
  by simp

text \<open>
  C7. A successful interrupt completion whose \<open>actual_length\<close> is not 8 logs one
  warning, publishes no event (no \<open>input_sync\<close> either) and resubmits the interrupt urb
  once, with \<open>GFP_ATOMIC\<close>. The trace is exactly: the warning, the submission, and the
  error report of a refused submission.
\<close>

theorem irq_length_mismatch:
  assumes "status u = 0" and "actual_length u \<noteq> 8"
  shows "hori_usb_irq u error =
           Log KERN_WARNING ''hori_usb_irq'' # Usb_submit_urb GFP_ATOMIC #
           (if error \<noteq> 0 \<and> error \<noteq> - EPERM then [Log KERN_ERR ''hori_urb_error''] else [])
         \<and> input_events (hori_usb_irq u error) = []
         \<and> int_submissions (hori_usb_irq u error) = [GFP_ATOMIC]"
  using assms by (simp add: hori_usb_irq_def input_events_def hori_urb_error_def)

theorem irq_length_mismatch_witness:
  "hori_usb_irq \<lparr>status = 0, actual_length = 7, irq_data = [1, 2, 3, 4, 5, 6, 7, 8]\<rparr> 0 =
     [Log KERN_WARNING ''hori_usb_irq'', Usb_submit_urb GFP_ATOMIC]"
  using irq_length_mismatch
    [of "\<lparr>status = 0, actual_length = 7, irq_data = [1, 2, 3, 4, 5, 6, 7, 8]\<rparr>" 0]
  by simp

subsection \<open>The poll reports\<close>

text \<open>
  C9. On a successful Poll-B completion the two pad axes are the only absolute-axis
  events: \<open>ABS_Z\<close> from the left (low) and right (high) bits of pad 2, \<open>ABS_RZ\<close> from its
  top (low) and bottom (high) bits, each by the rule low edge active gives 0, high edge
  active gives 2, otherwise 1, a bit being active when it is 0. When the low edge is
  active the value is 0 whatever the high edge is.
\<close>

theorem poll_b_pad_axes:
  assumes "status u = 0"
  shows "abs_events (snd (hori_poll_vr1_complete h u error)) =
           [(ABS_Z, pad_axis_spec (active (dpad2_left (vr1 h))) (active (dpad2_right (vr1 h)))),
            (ABS_RZ, pad_axis_spec (active (dpad2_top (vr1 h))) (active (dpad2_bottom (vr1 h))))]
         \<and> pad_axis_spec True high = 0"
  using assms
  by (simp add: hori_poll_vr1_complete_def hori_poll_vr0_def report_vr1_def hori_urb_error_def
      pad_axis_spec_def active_def Let_def split: prod.splits)

text \<open>Left and right both active (0), top inactive, bottom active: \<open>ABS_Z = 0\<close>, \<open>ABS_RZ = 2\<close>.\<close>

theorem poll_b_pad_axes_witness:
  "abs_events (snd (hori_poll_vr1_complete (probed\<lparr>vr1 := vr1_zero\<lparr>dpad2_top := True\<rparr>\<rparr>)
       \<lparr>status = 0, actual_length = 2\<rparr> 0)) = [(ABS_Z, 0), (ABS_RZ, 2)]"
  using poll_b_pad_axes [where u = "\<lparr>status = 0, actual_length = 2\<rparr>"
      and h = "probed\<lparr>vr1 := vr1_zero\<lparr>dpad2_top := True\<rparr>\<rparr>" and error = 0 and high = True]
  by (simp add: pad_axis_spec_def active_def vr1_zero_def)

subsection \<open>Open, suspend, resume\<close>

text \<open>
  C5. When the submission of the interrupt urb fails (a nonzero result), \<open>hori_open\<close>
  returns \<open>-EIO\<close> and leaves the session as it was (\<open>is_open\<close> included); its trace
  holds no control submission. When it succeeds, \<open>hori_open\<close> returns 0 with \<open>is_open\<close>
  set and exactly one control submission, of \<open>PHASE_A\<close>, whatever that submission
  returns.
\<close>

theorem hori_open_result:
  "(error \<noteq> 0 \<longrightarrow>
      hori_open h error error_ctl =
        (- EIO, h, [Mutex_lock, Usb_submit_urb GFP_KERNEL, Log KERN_ERR ''hori_open'', Mutex_unlock]))
   \<and> (error = 0 \<longrightarrow>
        fst (hori_open h error error_ctl) = 0
        \<and> is_open (fst (snd (hori_open h error error_ctl)))
        \<and> int_submissions (snd (snd (hori_open h error error_ctl))) = [GFP_KERNEL]
        \<and> ctl_phases (snd (snd (hori_open h error error_ctl))) = [Some PHASE_A])"
  by (simp add: hori_open_def hori_poll_vr0_def hori_urb_error_def ctl_phases_def phase_of_def
      sizeof_vr0_def HORI_POLL_VR0_def Let_def)

theorem hori_open_result_witness:
  "hori_open probed (- 12) 0 =
     (- 5, probed, [Mutex_lock, Usb_submit_urb GFP_KERNEL, Log KERN_ERR ''hori_open'', Mutex_unlock])
   \<and> \<not> is_open probed
   \<and> fst (hori_open probed 0 (- 12)) = 0
   \<and> is_open (fst (snd (hori_open probed 0 (- 12))))
   \<and> ctl_phases (snd (snd (hori_open probed 0 (- 12)))) = [Some PHASE_A]"
  using hori_open_result [of "- 12" probed 0] hori_open_result [of 0 probed "- 12"]
  by (simp add: EIO_def probed_def)

text \<open>
  C10. On a session with \<open>is_open\<close> false, \<open>hori_suspend\<close> and \<open>hori_resume\<close> return 0,
  leave the session unchanged and call neither \<open>usb_kill_urb\<close> nor \<open>usb_submit_urb\<close>
  (the trace is the warning of \<open>hori_suspend\<close> and the lock and unlock of the mutex);
  \<open>hori_suspend\<close> returns 0 on every session.
\<close>

theorem closed_session_suspend_resume:
  "(\<not> is_open h \<longrightarrow>
      hori_suspend h = (0, h, [Log KERN_WARNING ''hori_suspend'', Mutex_lock, Mutex_unlock])
      \<and> hori_resume h error error_ctl = (0, h, [Mutex_lock, Mutex_unlock]))
   \<and> fst (hori_suspend h) = 0"
  by (simp add: hori_suspend_def hori_resume_def)

theorem closed_session_suspend_resume_witness:
  "\<not> is_open probed
   \<and> hori_suspend probed = (0, probed, [Log KERN_WARNING ''hori_suspend'', Mutex_lock, Mutex_unlock])
   \<and> hori_resume probed (- 12) (- 12) = (0, probed, [Mutex_lock, Mutex_unlock])"
  using closed_session_suspend_resume [of probed "- 12" "- 12"]
  by (simp add: probed_def)

subsection \<open>The control poll chain\<close>

lemma ctl_submissions_append:
  "ctl_submissions (xs @ ys) = ctl_submissions xs @ ctl_submissions ys"
  by (induction xs rule: ctl_submissions.induct) simp_all

lemma ctl_phases_append: "ctl_phases (xs @ ys) = ctl_phases xs @ ctl_phases ys"
  by (simp add: ctl_phases_def ctl_submissions_append)

lemma poll_vr0_submits:
  "urb_ctl (fst (hori_poll_vr0 h error)) = Some (phase_fill PHASE_A)
   \<and> ctl_phases (snd (hori_poll_vr0 h error)) = [Some PHASE_A]"
  by (simp add: hori_poll_vr0_def hori_urb_error_def ctl_phases_def phase_of_def
      sizeof_vr0_def HORI_POLL_VR0_def Let_def)

lemma poll_vr1_submits:
  "urb_ctl (fst (hori_poll_vr1 h error)) = Some (phase_fill PHASE_B)
   \<and> ctl_phases (snd (hori_poll_vr1 h error)) = [Some PHASE_B]"
  by (simp add: hori_poll_vr1_def hori_urb_error_def ctl_phases_def phase_of_def
      sizeof_vr1_def HORI_POLL_VR1_def HORI_POLL_VR0_def Let_def)

lemma report_vr0_no_submission: "ctl_submissions (report_vr0 v) = []"
  by (simp add: report_vr0_def)

lemma report_vr1_no_submission: "ctl_submissions (report_vr1 v) = []"
  by (simp add: report_vr1_def)

lemma vr0_complete_advance:
  assumes "classify (status u) \<in> {SUCCESS, PROTOCOL_STALL, UNEXPECTED}"
  shows "urb_ctl (fst (hori_poll_vr0_complete h u error)) = Some (phase_fill PHASE_B)
         \<and> ctl_phases (snd (hori_poll_vr0_complete h u error)) = [Some PHASE_B]"
  using assms poll_vr1_submits [of h error]
  by (auto simp: hori_poll_vr0_complete_def classify_def ctl_phases_append
      ctl_phases_def report_vr0_no_submission ctl_submissions_append
      split: if_splits prod.splits)

lemma vr1_complete_advance:
  assumes "classify (status u) \<in> {SUCCESS, PROTOCOL_STALL, UNEXPECTED}"
  shows "urb_ctl (fst (hori_poll_vr1_complete h u error)) = Some (phase_fill PHASE_A)
         \<and> ctl_phases (snd (hori_poll_vr1_complete h u error)) = [Some PHASE_A]"
  using assms poll_vr0_submits [of h error]
  by (auto simp: hori_poll_vr1_complete_def classify_def ctl_phases_append
      ctl_phases_def report_vr1_no_submission ctl_submissions_append
      split: if_splits prod.splits)

lemma vr0_complete_halt:
  assumes "classify (status u) \<in> {TRANSIENT_TIMEOUT, TERMINATED}"
  shows "fst (hori_poll_vr0_complete h u error) = h
         \<and> ctl_submissions (snd (hori_poll_vr0_complete h u error)) = []"
  using assms
  by (auto simp: hori_poll_vr0_complete_def classify_def split: if_splits)

lemma vr1_complete_halt:
  assumes "classify (status u) \<in> {TRANSIENT_TIMEOUT, TERMINATED}"
  shows "fst (hori_poll_vr1_complete h u error) = h
         \<and> ctl_submissions (snd (hori_poll_vr1_complete h u error)) = []"
  using assms
  by (auto simp: hori_poll_vr1_complete_def classify_def split: if_splits)

lemma complete_call_advance:
  assumes "urb_ctl h = Some (phase_fill p)"
    and "classify (status (ev_urb e)) \<in> {SUCCESS, PROTOCOL_STALL, UNEXPECTED}"
  shows "urb_ctl (fst (ctl_complete_call h e)) = Some (phase_fill (other_phase p))
         \<and> ctl_phases (snd (ctl_complete_call h e)) = [Some (other_phase p)]"
proof (cases p)
  case PHASE_A
  with assms show ?thesis
    using vr0_complete_advance [of "ev_urb e" "deliver h (phase_fill PHASE_A) e" "ev_submit e"]
    by (simp add: ctl_complete_call_def)
next
  case PHASE_B
  with assms show ?thesis
    using vr1_complete_advance [of "ev_urb e" "deliver h (phase_fill PHASE_B) e" "ev_submit e"]
    by (simp add: ctl_complete_call_def)
qed

lemma complete_call_halt:
  assumes "urb_ctl h = Some (phase_fill p)"
    and "classify (status (ev_urb e)) \<in> {TRANSIENT_TIMEOUT, TERMINATED}"
  shows "ctl_submissions (snd (ctl_complete_call h e)) = []"
proof (cases p)
  case PHASE_A
  with assms show ?thesis
    using vr0_complete_halt [of "ev_urb e" "deliver h (phase_fill PHASE_A) e" "ev_submit e"]
    by (simp add: ctl_complete_call_def)
next
  case PHASE_B
  with assms show ?thesis
    using vr1_complete_halt [of "ev_urb e" "deliver h (phase_fill PHASE_B) e" "ev_submit e"]
    by (simp add: ctl_complete_call_def)
qed

lemma ctl_chain_phases:
  assumes "\<forall>e \<in> set es. classify (status (ev_urb e)) \<in> {SUCCESS, PROTOCOL_STALL, UNEXPECTED}
                        \<and> ev_submit e = 0"
    and "urb_ctl h = Some (phase_fill p)"
  shows "ctl_phases (ctl_chain h es) = map Some (alternating (other_phase p) (length es))"
  using assms
proof (induction es arbitrary: h p)
  case Nil
  then show ?case by (simp add: ctl_phases_def)
next
  case (Cons e es)
  obtain h' fx where call: "ctl_complete_call h e = (h', fx)"
    by (cases "ctl_complete_call h e")
  from Cons.prems have adv: "classify (status (ev_urb e)) \<in> {SUCCESS, PROTOCOL_STALL, UNEXPECTED}"
    and acc: "ev_submit e = 0" by simp_all
  from complete_call_advance [OF Cons.prems(2) adv] call
  have fill: "urb_ctl h' = Some (phase_fill (other_phase p))"
    and ph: "ctl_phases fx = [Some (other_phase p)]" by simp_all
  from ph have ne: "ctl_submissions fx \<noteq> []" by (auto simp: ctl_phases_def)
  from Cons.prems(1) have rest: "\<forall>e \<in> set es.
      classify (status (ev_urb e)) \<in> {SUCCESS, PROTOCOL_STALL, UNEXPECTED} \<and> ev_submit e = 0"
    by simp
  from Cons.IH [OF rest fill]
  have "ctl_phases (ctl_chain h' es) =
          map Some (alternating (other_phase (other_phase p)) (length es))" .
  with call ph ne acc show ?case
    by (simp add: ctl_phases_append)
qed

lemma ctl_chain_halts:
  assumes "\<forall>e \<in> set es. classify (status (ev_urb e)) \<in> {SUCCESS, PROTOCOL_STALL, UNEXPECTED}
                        \<and> ev_submit e = 0"
    and "urb_ctl h = Some (phase_fill p)"
    and "classify (status (ev_urb stop)) \<in> {TRANSIENT_TIMEOUT, TERMINATED}"
  shows "ctl_phases (ctl_chain h (es @ stop # rest)) =
           map Some (alternating (other_phase p) (length es))"
  using assms
proof (induction es arbitrary: h p)
  case Nil
  obtain h' fx where call: "ctl_complete_call h stop = (h', fx)"
    by (cases "ctl_complete_call h stop")
  with complete_call_halt [OF Nil.prems(2) Nil.prems(3)]
  show ?case by (simp add: ctl_phases_def)
next
  case (Cons e es)
  obtain h' fx where call: "ctl_complete_call h e = (h', fx)"
    by (cases "ctl_complete_call h e")
  from Cons.prems have adv: "classify (status (ev_urb e)) \<in> {SUCCESS, PROTOCOL_STALL, UNEXPECTED}"
    and acc: "ev_submit e = 0" by simp_all
  from complete_call_advance [OF Cons.prems(2) adv] call
  have fill: "urb_ctl h' = Some (phase_fill (other_phase p))"
    and ph: "ctl_phases fx = [Some (other_phase p)]" by simp_all
  from ph have ne: "ctl_submissions fx \<noteq> []" by (auto simp: ctl_phases_def)
  from Cons.prems(1) have rest: "\<forall>e \<in> set es.
      classify (status (ev_urb e)) \<in> {SUCCESS, PROTOCOL_STALL, UNEXPECTED} \<and> ev_submit e = 0"
    by simp
  from Cons.IH [OF rest fill Cons.prems(3)]
  have "ctl_phases (ctl_chain h' (es @ stop # rest)) =
          map Some (alternating (other_phase (other_phase p)) (length es))" .
  with call ph ne acc show ?case
    by (simp add: ctl_phases_append)
qed

text \<open>
  \<open>hori_open\<close>, \<open>hori_resume\<close> and \<open>hori_post_reset\<close> make no control submission other
  than the one of \<open>hori_poll_vr0\<close>.
\<close>

lemma lifecycle_control_submissions:
  "ctl_phases (snd (snd (hori_open h error error_ctl))) = (if error = 0 then [Some PHASE_A] else [])"
  "ctl_phases (snd (snd (hori_resume h error error_ctl))) =
     (if is_open h \<and> 0 \<le> error then [Some PHASE_A] else [])"
  "ctl_phases (snd (snd (hori_post_reset h error error_ctl))) =
     (if is_open h then [Some PHASE_A] else [])"
  using poll_vr0_submits [of h error_ctl] poll_vr0_submits [of "h\<lparr>is_open := True\<rparr>" error_ctl]
  by (auto simp: hori_open_def hori_resume_def hori_post_reset_def ctl_phases_def
      ctl_submissions_append split: prod.splits)

text \<open>
  C1. Start the chain with \<open>hori_poll_vr0\<close> (as \<open>hori_open\<close>, \<open>hori_resume\<close> and
  \<open>hori_post_reset\<close> do) and let its submissions be accepted. For completions \<open>es\<close> that
  are all classified \<open>SUCCESS\<close>, \<open>PROTOCOL_STALL\<close> or \<open>UNEXPECTED\<close>, the phases of the
  control submissions in the trace are exactly \<open>A, B, A, B, \<dots>\<close>: the initial one and the
  other phase after each completion. When a completion \<open>stop\<close> classified
  \<open>TRANSIENT_TIMEOUT\<close> or \<open>TERMINATED\<close> follows, its handler submits nothing, and the
  trace holds no further submission whatever \<open>rest\<close> is. Each handler issues the other
  phase's request on such a completion whatever that submission returns.
\<close>

theorem poll_chain_alternates:
  assumes "\<forall>e \<in> set es. classify (status (ev_urb e)) \<in> {SUCCESS, PROTOCOL_STALL, UNEXPECTED}
                        \<and> ev_submit e = 0"
    and "classify (status (ev_urb stop)) \<in> {TRANSIENT_TIMEOUT, TERMINATED}"
    and "classify (status u) \<in> {SUCCESS, PROTOCOL_STALL, UNEXPECTED}"
  shows "ctl_phases (start_chain h 0 es) = map Some (alternating PHASE_A (Suc (length es)))
         \<and> ctl_phases (start_chain h 0 (es @ stop # rest)) =
             map Some (alternating PHASE_A (Suc (length es)))
         \<and> ctl_phases (snd (hori_poll_vr0_complete h u error)) = [Some PHASE_B]
         \<and> ctl_phases (snd (hori_poll_vr1_complete h u error)) = [Some PHASE_A]"
proof -
  obtain h' fx where start: "hori_poll_vr0 h 0 = (h', fx)"
    by (cases "hori_poll_vr0 h 0")
  with poll_vr0_submits [of h 0]
  have fill: "urb_ctl h' = Some (phase_fill PHASE_A)" and ph: "ctl_phases fx = [Some PHASE_A]"
    by simp_all
  from ctl_chain_phases [OF assms(1) fill] ctl_chain_halts [OF assms(1) fill assms(2)] start ph
  have "ctl_phases (start_chain h 0 es) = map Some (alternating PHASE_A (Suc (length es)))
        \<and> ctl_phases (start_chain h 0 (es @ stop # rest)) =
            map Some (alternating PHASE_A (Suc (length es)))"
    by (simp add: start_chain_def ctl_phases_append)
  with vr0_complete_advance [OF assms(3), of h error] vr1_complete_advance [OF assms(3), of h error]
  show ?thesis by simp
qed

text \<open>
  Success, stall (\<open>-EPIPE\<close>) and an unlisted status (\<open>-71\<close>, \<open>-EPROTO\<close>), then a timeout,
  then a completion that can no longer arrive.
\<close>

theorem poll_chain_alternates_witness:
  "ctl_phases (start_chain probed 0
       ([completion_with 0, completion_with (- EPIPE), completion_with (- 71)]
        @ completion_with (- ETIME) # [completion_with 0])) =
     [Some PHASE_A, Some PHASE_B, Some PHASE_A, Some PHASE_B]
   \<and> ctl_phases (snd (hori_poll_vr0_complete probed \<lparr>status = - EPIPE, actual_length = 0\<rparr> (- 12)))
       = [Some PHASE_B]"
  using poll_chain_alternates
    [of "[completion_with 0, completion_with (- EPIPE), completion_with (- 71)]"
        "completion_with (- ETIME)" "\<lparr>status = - EPIPE, actual_length = 0\<rparr>" probed
        "[completion_with 0]" "- 12"]
  by (simp add: completion_with_def classify_def errno_defs)

subsection \<open>Resubmission of the interrupt read\<close>

text \<open>
  C2, as stated, fails: a completion with status \<open>-EPIPE\<close> is classified
  \<open>PROTOCOL_STALL\<close>, and \<open>hori_usb_irq\<close> returns on it without resubmitting (its switch
  lists \<open>-EPIPE\<close> with the terminated statuses).
\<close>

theorem irq_stall_not_resubmitted:
  "classify (- EPIPE) = PROTOCOL_STALL
   \<and> int_submissions (hori_usb_irq \<lparr>status = - EPIPE, actual_length = 8,
        irq_data = [10, 20, 30, 40, 50, 60, 0xff, 0x00]\<rparr> 0) = []"
  by (simp add: hori_usb_irq_def classify_def errno_defs)

text \<open>
  C2, amended. \<open>hori_usb_irq\<close> resubmits the interrupt read, once and with \<open>GFP_ATOMIC\<close>,
  exactly on the completions classified \<open>SUCCESS\<close> or \<open>UNEXPECTED\<close>; on
  \<open>TRANSIENT_TIMEOUT\<close>, \<open>TERMINATED\<close> and \<open>PROTOCOL_STALL\<close> it submits nothing.
\<close>

theorem irq_resubmission:
  "int_submissions (hori_usb_irq u error) =
     (if classify (status u) \<in> {SUCCESS, UNEXPECTED} then [GFP_ATOMIC] else [])"
  by (simp add: hori_usb_irq_def classify_def hori_urb_error_def errno_defs Let_def)

theorem irq_resubmission_witness:
  "int_submissions (hori_usb_irq \<lparr>status = - 71, actual_length = 0, irq_data = []\<rparr> 0) = [GFP_ATOMIC]"
  using irq_resubmission [of "\<lparr>status = - 71, actual_length = 0, irq_data = []\<rparr>" 0]
  by (simp add: classify_def errno_defs)

subsection \<open>Terminated completions\<close>

text \<open>
  C8, as stated, fails on the log level: on a terminated status the two poll handlers
  log with \<open>dev_warn\<close>, not at debug level.
\<close>

theorem poll_terminated_logs_warning:
  "classify (- ESHUTDOWN) = TERMINATED
   \<and> log_levels (snd (hori_poll_vr0_complete opened \<lparr>status = - ESHUTDOWN, actual_length = 0\<rparr> 0))
       = [KERN_WARNING]
   \<and> log_levels (snd (hori_poll_vr1_complete opened \<lparr>status = - ESHUTDOWN, actual_length = 0\<rparr> 0))
       = [KERN_WARNING]"
  by (simp add: hori_poll_vr0_complete_def hori_poll_vr1_complete_def classify_def errno_defs)

text \<open>
  C8, amended. On a completion classified \<open>TERMINATED\<close> each leg only logs once and
  does nothing else (no event, no submission, session unchanged): \<open>hori_usb_irq\<close> at
  debug level, the two poll handlers at warning level; none at error level.
\<close>

theorem terminated_completion:
  assumes "classify (status ui) = TERMINATED" and "classify (status u) = TERMINATED"
  shows "hori_usb_irq ui error = [Log KERN_DEBUG ''hori_usb_irq'']
         \<and> hori_poll_vr0_complete h u error = (h, [Log KERN_WARNING ''hori_poll_vr0_complete''])
         \<and> hori_poll_vr1_complete h u error = (h, [Log KERN_WARNING ''hori_poll_vr1_complete''])"
  using assms
  by (auto simp: hori_usb_irq_def hori_poll_vr0_complete_def hori_poll_vr1_complete_def
      classify_def errno_defs split: if_splits)

theorem terminated_completion_witness:
  "hori_usb_irq \<lparr>status = - ENOENT, actual_length = 0, irq_data = []\<rparr> 0 =
     [Log KERN_DEBUG ''hori_usb_irq'']
   \<and> hori_poll_vr0_complete opened \<lparr>status = - ECONNRESET, actual_length = 0\<rparr> 0 =
       (opened, [Log KERN_WARNING ''hori_poll_vr0_complete''])
   \<and> hori_poll_vr1_complete opened \<lparr>status = - ECONNRESET, actual_length = 0\<rparr> 0 =
       (opened, [Log KERN_WARNING ''hori_poll_vr1_complete''])"
  using terminated_completion [of "\<lparr>status = - ENOENT, actual_length = 0, irq_data = []\<rparr>"
      "\<lparr>status = - ECONNRESET, actual_length = 0\<rparr>" 0 opened]
  by (simp add: classify_def errno_defs)

subsection \<open>Suspend and resume of an open session\<close>

text \<open>
  C6, as stated, fails when the resubmission of the interrupt read is refused:
  \<open>hori_resume\<close> then returns \<open>-EIO\<close> before it reaches \<open>hori_poll_vr0\<close>, and the
  control poll chain is not restarted.
\<close>

theorem resume_refused_no_poll:
  "is_open opened
   \<and> hori_resume (fst (snd (hori_suspend opened))) (- ENOMEM) 0 =
       (- EIO, opened, [Mutex_lock, Usb_submit_urb GFP_KERNEL, Mutex_unlock])
   \<and> ctl_phases (snd (snd (hori_resume (fst (snd (hori_suspend opened))) (- ENOMEM) 0))) = []"
  by (simp add: opened_def hori_open_def hori_poll_vr0_def hori_suspend_def hori_resume_def
      ctl_phases_def Let_def errno_defs)

text \<open>
  C6, amended. On a session with \<open>is_open\<close> true, \<open>hori_suspend\<close> kills the interrupt
  urb and the control urb, returns 0 and leaves the session (\<open>is_open\<close> included)
  unchanged. A following \<open>hori_resume\<close> submits the interrupt urb once; when that
  submission does not fail (result not negative) it returns 0 and makes exactly one
  control submission, of \<open>PHASE_A\<close>. In no case does it submit \<open>PHASE_B\<close>.
\<close>

theorem suspend_resume_restart:
  assumes "is_open h"
  shows "hori_suspend h =
           (0, h, [Log KERN_WARNING ''hori_suspend'', Mutex_lock, Usb_kill_urb, Usb_kill_urb_ctl,
                   Mutex_unlock])
         \<and> int_submissions (snd (snd (hori_resume (fst (snd (hori_suspend h))) error error_ctl)))
             = [GFP_KERNEL]
         \<and> (0 \<le> error \<longrightarrow>
              fst (hori_resume (fst (snd (hori_suspend h))) error error_ctl) = 0
              \<and> ctl_phases (snd (snd (hori_resume (fst (snd (hori_suspend h))) error error_ctl)))
                  = [Some PHASE_A])
         \<and> Some PHASE_B \<notin>
             set (ctl_phases (snd (snd (hori_resume (fst (snd (hori_suspend h))) error error_ctl))))"
  using assms
  by (simp add: hori_suspend_def hori_resume_def hori_poll_vr0_def hori_urb_error_def
      ctl_phases_def phase_of_def sizeof_vr0_def HORI_POLL_VR0_def Let_def)

theorem suspend_resume_restart_witness:
  "is_open opened
   \<and> fst (snd (hori_suspend opened)) = opened
   \<and> kills (snd (snd (hori_suspend opened))) = [Usb_kill_urb, Usb_kill_urb_ctl]
   \<and> ctl_phases (snd (snd (hori_resume (fst (snd (hori_suspend opened))) 0 0))) = [Some PHASE_A]"
proof -
  have op: "is_open opened"
    by (simp add: opened_def hori_open_def hori_poll_vr0_def Let_def)
  from suspend_resume_restart [OF op, of 0 0] op show ?thesis
    by auto
qed

subsection \<open>Poll completions shorter than the report\<close>

text \<open>
  C4. The interrupt handler decodes only when \<open>actual_length\<close> is 8, but the poll
  handlers never read \<open>actual_length\<close>: on the probed session, whose buffers are still
  zero, a successful Poll-A completion that transferred 0 bytes publishes all ten
  buttons as pressed, and a successful Poll-B completion that transferred 1 byte
  publishes its four buttons and both pad axes, each with its \<open>input_sync\<close> and
  without any log.
\<close>

theorem poll_short_transfer_decoded:
  "input_events (snd (hori_poll_vr0_complete probed \<lparr>status = 0, actual_length = 0\<rparr> 0)) =
     [Input_report_key BTN_TRIGGER_HAPPY1 True, Input_report_key BTN_TRIGGER_HAPPY2 True,
      Input_report_key BTN_TRIGGER_HAPPY3 True, Input_report_key BTN_TRIGGER_HAPPY4 True,
      Input_report_key BTN_TRIGGER_HAPPY5 True, Input_report_key BTN_TRIGGER_HAPPY6 True,
      Input_report_key BTN_TRIGGER_HAPPY7 True, Input_report_key BTN_TRIGGER_HAPPY8 True,
      Input_report_key BTN_THUMB True, Input_report_key BTN_TRIGGER True, Input_sync]
   \<and> log_levels (snd (hori_poll_vr0_complete probed \<lparr>status = 0, actual_length = 0\<rparr> 0)) = []
   \<and> input_events (snd (hori_poll_vr1_complete probed \<lparr>status = 0, actual_length = 1\<rparr> 0)) =
     [Input_report_key BTN_THUMB2 True, Input_report_key BTN_C True,
      Input_report_key BTN_X True, Input_report_key BTN_Y True,
      Input_report_abs ABS_Z 0, Input_report_abs ABS_RZ 0, Input_sync]
   \<and> log_levels (snd (hori_poll_vr1_complete probed \<lparr>status = 0, actual_length = 1\<rparr> 0)) = []"
  by (simp add: hori_poll_vr0_complete_def hori_poll_vr1_complete_def hori_poll_vr0_def
      hori_poll_vr1_def report_vr0_def report_vr1_def input_events_def probed_def
      vr0_zero_def vr1_zero_def Let_def)

end
